theory Spec2Isabelle
  imports Complex_Main
begin

section \<open>Values shared by the motion planner and the collision graph\<close>

text \<open>
  A Go \<^verbatim>\<open>float64\<close>, as far as the planner looks at it: the three special values
  and the finite ones. The finite values are read as real numbers (rounding is
  not modelled); the comparisons follow IEEE 754, where every comparison with
  a NaN is false.
\<close>

datatype float64 = NaN | NegInf | Finite real | PosInf

fun float_le :: "float64 \<Rightarrow> float64 \<Rightarrow> bool" where
  "float_le NaN b = False"
| "float_le a NaN = False"
| "float_le NegInf b = True"
| "float_le a PosInf = True"
| "float_le (Finite a) (Finite b) = (a \<le> b)"
| "float_le (Finite a) NegInf = False"
| "float_le PosInf b = False"

fun float_lt :: "float64 \<Rightarrow> float64 \<Rightarrow> bool" where
  "float_lt NaN b = False"
| "float_lt a NaN = False"
| "float_lt NegInf NegInf = False"
| "float_lt NegInf b = True"
| "float_lt PosInf b = False"
| "float_lt (Finite a) (Finite b) = (a < b)"
| "float_lt (Finite a) NegInf = False"
| "float_lt (Finite a) PosInf = True"

fun float_add :: "float64 \<Rightarrow> float64 \<Rightarrow> float64" where
  "float_add NaN b = NaN"
| "float_add a NaN = NaN"
| "float_add (Finite a) (Finite b) = Finite (a + b)"
| "float_add PosInf NegInf = NaN"
| "float_add NegInf PosInf = NaN"
| "float_add PosInf b = PosInf"
| "float_add NegInf b = NegInf"
| "float_add a PosInf = PosInf"
| "float_add a NegInf = NegInf"

fun float_neg :: "float64 \<Rightarrow> float64" where
  "float_neg NaN = NaN"
| "float_neg NegInf = PosInf"
| "float_neg PosInf = NegInf"
| "float_neg (Finite a) = Finite (- a)"

fun float_mul :: "float64 \<Rightarrow> float64 \<Rightarrow> float64" where
  "float_mul NaN b = NaN"
| "float_mul a NaN = NaN"
| "float_mul (Finite a) (Finite b) = Finite (a * b)"
| "float_mul (Finite a) b = (if a = 0 then NaN else if 0 < a then b else float_neg b)"
| "float_mul a (Finite b) = (if b = 0 then NaN else if 0 < b then a else float_neg a)"
| "float_mul PosInf b = b"
| "float_mul NegInf b = float_neg b"

fun float_div :: "float64 \<Rightarrow> float64 \<Rightarrow> float64" where
  "float_div NaN b = NaN"
| "float_div a NaN = NaN"
| "float_div (Finite a) (Finite b) =
     (if b = 0 then (if a = 0 then NaN else if 0 < a then PosInf else NegInf)
      else Finite (a / b))"
| "float_div (Finite a) b = Finite 0"
| "float_div a (Finite b) = (if 0 \<le> b then a else float_neg a)"
| "float_div a b = NaN"

definition float_of_int :: "int \<Rightarrow> float64" where
  "float_of_int i = Finite (real_of_int i)"

text \<open>
  A Go \<^verbatim>\<open>error\<close> value. \<open>Error\<close> carries the message of \<^verbatim>\<open>errors.New\<close> (or of
  an error made outside this package), \<open>Errorf_w\<close> is
  \<^verbatim>\<open>fmt.Errorf(prefix + "%w", err)\<close>. Two ways in which a call ends without
  returning are kept in the same type, so that a function of the model can end
  in them: \<open>Panic\<close> is a run-time panic, and \<open>Blocked\<close> is a receive that no
  sender and no end of the context ever completes. They are not error values:
  no caller of the model wraps them or takes them for a returned error.
\<close>

datatype error = Error string | Errorf_w string error | Panic string | Blocked

fun Error_msg :: "error \<Rightarrow> string" where
  "Error_msg (Error m) = m"
| "Error_msg (Errorf_w p e) = p @ Error_msg e"
| "Error_msg (Panic m) = m"
| "Error_msg Blocked = []"

fun returned :: "error \<Rightarrow> bool" where
  "returned (Panic m) = False"
| "returned Blocked = False"
| "returned e = True"

section \<open>The collision graph\<close>

text \<open>
  \<^verbatim>\<open>map[string]map[string]float64\<close>: the rows are created by
  \<open>newGeometryGraph\<close>, one for each name of the first geometry set. Reading a
  missing row of a Go map gives the nil map, and reading the nil map gives
  "not found"; writing into the nil map panics.
\<close>

type_synonym distance_table = "string \<rightharpoonup> (string \<rightharpoonup> float64)"

definition table_get :: "distance_table \<Rightarrow> string \<Rightarrow> string \<Rightarrow> float64 option" where
  "table_get d name1 name2 = (case d name1 of None \<Rightarrow> None | Some row \<Rightarrow> row name2)"

definition table_put :: "distance_table \<Rightarrow> string \<Rightarrow> string \<Rightarrow> float64 \<Rightarrow> error + distance_table" where
  "table_put d name1 name2 v =
     (case d name1 of
        None \<Rightarrow> Inl (Panic ''assignment to entry in nil map'')
      | Some row \<Rightarrow> Inr (d(name1 \<mapsto> row(name2 \<mapsto> v))))"

text \<open>
  The two geometry sets are Go maps from names to geometries; a \<^verbatim>\<open>range\<close> over
  a Go map visits the entries in an order that changes from run to run, so a
  set is given as the list of its entries in the order of the run at hand.
\<close>

record 'g geometryGraph =
  gg_x :: "(string \<times> 'g) list"
  gg_y :: "(string \<times> 'g) list"
  distances :: distance_table

record 'g collisionGraph = "'g geometryGraph" +
  reportDistances :: bool

definition newGeometryGraph :: "(string \<times> 'g) list \<Rightarrow> (string \<times> 'g) list \<Rightarrow> 'g geometryGraph" where
  "newGeometryGraph xs ys =
     \<lparr> gg_x = xs, gg_y = ys,
       distances = foldl (\<lambda>d (name, g). d(name \<mapsto> Map.empty)) Map.empty xs \<rparr>"

definition setDistance ::
  "('g, 'z) geometryGraph_scheme \<Rightarrow> string \<Rightarrow> string \<Rightarrow> float64 \<Rightarrow> error + ('g, 'z) geometryGraph_scheme" where
  "setDistance gg xName yName distance =
     (case table_get (distances gg) yName xName of
        Some old \<Rightarrow>
          (case table_put (distances gg) yName xName distance of
             Inl e \<Rightarrow> Inl e
           | Inr d \<Rightarrow> Inr (gg\<lparr>distances := d\<rparr>))
      | None \<Rightarrow>
          (case table_put (distances gg) xName yName distance of
             Inl e \<Rightarrow> Inl e
           | Inr d \<Rightarrow> Inr (gg\<lparr>distances := d\<rparr>)))"

definition getDistance :: "('g, 'z) geometryGraph_scheme \<Rightarrow> string \<Rightarrow> string \<Rightarrow> float64 \<times> bool" where
  "getDistance cg name1 name2 =
     (case table_get (distances cg) name1 name2 of
        Some distance \<Rightarrow> (distance, True)
      | None \<Rightarrow>
          (case table_get (distances cg) name2 name1 of
             Some distance \<Rightarrow> (distance, True)
           | None \<Rightarrow> (NaN, False)))"

text \<open>
  What the graph takes from the geometry package, which is not part of this
  package: the collision buffer and the two queries on a pair of geometries.
\<close>

record 'g spatial =
  CollisionBuffer :: float64
  DistanceFrom :: "'g \<Rightarrow> 'g \<Rightarrow> float64 \<times> error option"
  CollidesWith :: "'g \<Rightarrow> 'g \<Rightarrow> bool \<times> error option"

definition collisionBetween :: "'g spatial \<Rightarrow> ('g, 'z) geometryGraph_scheme \<Rightarrow> string \<Rightarrow> string \<Rightarrow> bool" where
  "collisionBetween sp cg name1 name2 =
     (case getDistance cg name1 name2 of
        (distance, True) \<Rightarrow> float_le distance (CollisionBuffer sp)
      | (distance, False) \<Rightarrow> False)"

definition checkCollision :: "'g spatial \<Rightarrow> 'g collisionGraph \<Rightarrow> 'g \<Rightarrow> 'g \<Rightarrow> float64 \<times> error option" where
  "checkCollision sp cg gx gy =
     (if reportDistances cg then DistanceFrom sp gx gy
      else (case CollidesWith sp gx gy of
              (col, err) \<Rightarrow> if col then (NegInf, err) else (PosInf, err)))"

text \<open>How one round of a loop of \<open>newCollisionGraph\<close> ends.\<close>

datatype 'a loop_exit = Next 'a | Return 'a | Fail error

fun newCollisionGraph_y ::
  "'g spatial \<Rightarrow> 'g collisionGraph option \<Rightarrow> string \<Rightarrow> 'g \<Rightarrow> (string \<times> 'g) list \<Rightarrow>
     'g collisionGraph \<Rightarrow> 'g collisionGraph loop_exit" where
  "newCollisionGraph_y sp reference xName xGeometry [] cg = Next cg"
| "newCollisionGraph_y sp reference xName xGeometry ((yName, yGeometry) # ys) cg =
     (if snd (getDistance cg xName yName) \<or> xGeometry = yGeometry
      then newCollisionGraph_y sp reference xName xGeometry ys cg
      else
        (case (case reference of
                 Some r \<Rightarrow> if collisionBetween sp r xName yName then (NaN, None)
                           else checkCollision sp cg xGeometry yGeometry
               | None \<Rightarrow> checkCollision sp cg xGeometry yGeometry) of
           (distance, Some err) \<Rightarrow> Fail err
         | (distance, None) \<Rightarrow>
             (case setDistance cg xName yName distance of
                Inl e \<Rightarrow> Fail e
              | Inr cg' \<Rightarrow>
                  if \<not> reportDistances cg' \<and> float_le distance (CollisionBuffer sp)
                  then Return cg'
                  else newCollisionGraph_y sp reference xName xGeometry ys cg')))"

fun newCollisionGraph_x ::
  "'g spatial \<Rightarrow> 'g collisionGraph option \<Rightarrow> (string \<times> 'g) list \<Rightarrow>
     'g collisionGraph \<Rightarrow> error + 'g collisionGraph" where
  "newCollisionGraph_x sp reference [] cg = Inr cg"
| "newCollisionGraph_x sp reference ((xName, xGeometry) # xs) cg =
     (case newCollisionGraph_y sp reference xName xGeometry (gg_y cg) cg of
        Fail e \<Rightarrow> Inl e
      | Return cg' \<Rightarrow> Inr cg'
      | Next cg' \<Rightarrow> newCollisionGraph_x sp reference xs cg')"

definition newCollisionGraph ::
  "'g spatial \<Rightarrow> (string \<times> 'g) list \<Rightarrow> (string \<times> 'g) list option \<Rightarrow> 'g collisionGraph option \<Rightarrow>
     bool \<Rightarrow> error + 'g collisionGraph" where
  "newCollisionGraph sp xs ys reference report =
     (let ys' = (case ys of None \<Rightarrow> xs | Some l \<Rightarrow> l);
          cg = geometryGraph.extend (newGeometryGraph xs ys') (collisionGraph.fields report)
      in newCollisionGraph_x sp reference (gg_x cg) cg)"

record Collision =
  name1 :: string
  name2 :: string
  penetrationDepth :: float64

definition addCollisionSpecification :: "'g collisionGraph \<Rightarrow> Collision \<Rightarrow> error + 'g collisionGraph" where
  "addCollisionSpecification cg specification =
     setDistance cg (name1 specification) (name2 specification) NaN"

text \<open>
  The graphs the package makes: the result of \<open>newCollisionGraph\<close>, and what
  \<open>addCollisionSpecification\<close> makes of such a graph.
\<close>

inductive built_graph :: "'g spatial \<Rightarrow> 'g collisionGraph \<Rightarrow> bool" where
  built_new: "newCollisionGraph sp xs ys reference report = Inr cg \<Longrightarrow> built_graph sp cg"
| built_spec: "built_graph sp cg \<Longrightarrow> addCollisionSpecification cg c = Inr cg' \<Longrightarrow> built_graph sp cg'"

text \<open>A pair of names has at most one entry of the table, in one of its two orders.\<close>

definition one_entry_per_pair :: "distance_table \<Rightarrow> bool" where
  "one_entry_per_pair d =
     (\<forall>a b. a \<noteq> b \<longrightarrow> table_get d a b = None \<or> table_get d b a = None)"

section \<open>Planner options\<close>

text \<open>
  A value of \<^verbatim>\<open>interface{}\<close> in the \<^verbatim>\<open>map[string]interface{}\<close> of a move
  request, by the dynamic types the planner asserts; \<open>VOther\<close> is a value of any
  other type.
\<close>

datatype ival = VString string | VFloat float64 | VInt int | VBool bool | VOther

type_synonym extras = "string \<rightharpoonup> ival"

type_synonym inputs = "float64 list"

type_synonym seedMap = "string \<rightharpoonup> inputs"

text \<open>
  Modelled from the spec: the names of the motion profiles are constants
  declared outside the source at hand; section 6 of the specification lists
  the values of \<^verbatim>\<open>motion_profile\<close>.
\<close>

definition LinearMotionProfile :: string where
  "LinearMotionProfile = ''linear''"

definition PseudolinearMotionProfile :: string where
  "PseudolinearMotionProfile = ''pseudolinear''"

definition OrientationMotionProfile :: string where
  "OrientationMotionProfile = ''orientation''"

definition PositionOnlyMotionProfile :: string where
  "PositionOnlyMotionProfile = ''position_only''"

definition FreeMotionProfile :: string where
  "FreeMotionProfile = ''free''"

definition defaultOptimalityMultiple :: float64 where
  "defaultOptimalityMultiple = Finite 2"

definition defaultFallbackTimeout :: float64 where
  "defaultFallbackTimeout = Finite (3 / 2)"

text \<open>
  The planner constructors that an options value can name. The specification
  (section 4.2) lists the selector as one of CBiRRT, RRT* and basic.
\<close>

datatype plannerConstructor =
  newCBiRRTMotionPlanner | newRRTStarConnectMotionPlanner | newBasicMotionPlanner

text \<open>
  The fields of \<^verbatim>\<open>plannerOptions\<close> that the plan manager reads or writes. The
  struct is declared outside the source at hand; constraints and metrics are
  closures, kept abstract as \<open>'c\<close> and \<open>'mt\<close>. The fallback makes the options a
  chain.
\<close>

record ('c, 'mt) optionFields =
  constraints :: "string \<rightharpoonup> 'c"
  metric :: 'mt
  pathDist :: 'mt
  extra :: extras
  Timeout :: float64
  DistanceFunc :: "inputs \<Rightarrow> inputs \<Rightarrow> float64"
  PlannerConstructor :: plannerConstructor

datatype ('c, 'mt) plannerOptions =
  PlannerOptions (base: "('c, 'mt) optionFields") (Fallback: "('c, 'mt) plannerOptions option")

definition with_fields ::
  "(('c, 'mt) optionFields \<Rightarrow> ('c, 'mt) optionFields) \<Rightarrow> ('c, 'mt) plannerOptions \<Rightarrow> ('c, 'mt) plannerOptions" where
  "with_fields f opt = PlannerOptions (f (base opt)) (Fallback opt)"

definition with_Fallback ::
  "('c, 'mt) plannerOptions option \<Rightarrow> ('c, 'mt) plannerOptions \<Rightarrow> ('c, 'mt) plannerOptions" where
  "with_Fallback fb opt = PlannerOptions (base opt) fb"

text \<open>
  Modelled from the spec: \<^verbatim>\<open>newBasicPlannerOptions\<close> is declared outside the
  source at hand. Its result holds the default value of every field, here a
  parameter, and no fallback: in section 4.2 the fallback of an options value
  is set by \<open>plannerSetupFromMoveRequest\<close> alone.
\<close>

definition newBasicPlannerOptions :: "('c, 'mt) optionFields \<Rightarrow> ('c, 'mt) plannerOptions" where
  "newBasicPlannerOptions defaults = PlannerOptions defaults None"

text \<open>
  Modelled from the spec: \<^verbatim>\<open>AddConstraint\<close> and \<^verbatim>\<open>SetMetric\<close> are methods
  declared outside the source at hand. The constraint set is "a named mapping
  from constraint-name to constraint object" (section 4.1); the metric is a
  field of the options (section 4.2).
\<close>

definition AddConstraint :: "string \<Rightarrow> 'c \<Rightarrow> ('c, 'mt) plannerOptions \<Rightarrow> ('c, 'mt) plannerOptions" where
  "AddConstraint name c opt = with_fields (\<lambda>f. f\<lparr>constraints := (constraints f)(name \<mapsto> c)\<rparr>) opt"

definition SetMetric :: "'mt \<Rightarrow> ('c, 'mt) plannerOptions \<Rightarrow> ('c, 'mt) plannerOptions" where
  "SetMetric m opt = with_fields (\<lambda>f. f\<lparr>metric := m\<rparr>) opt"

text \<open>
  Modelled from the spec: the options struct and its JSON field tags are
  declared outside the source at hand. \<open>plannerSetupFromMoveRequest\<close> has to
  "deserialise numeric and boolean fields from opts into the options object,
  leaving defaults where absent" (section 4.2); of these fields the plan
  manager reads the per-planner timeout, which section 6 gives as the number
  under the key \<^verbatim>\<open>timeout\<close>. A value of another type under that key makes
  \<^verbatim>\<open>json.Unmarshal\<close> fail.
\<close>

definition json_Unmarshal :: "extras \<Rightarrow> ('c, 'mt) plannerOptions \<Rightarrow> error + ('c, 'mt) plannerOptions" where
  "json_Unmarshal m opt =
     (case m ''timeout'' of
        None \<Rightarrow> Inr opt
      | Some (VFloat t) \<Rightarrow> Inr (with_fields (\<lambda>f. f\<lparr>Timeout := t\<rparr>) opt)
      | Some (VInt n) \<Rightarrow> Inr (with_fields (\<lambda>f. f\<lparr>Timeout := float_of_int n\<rparr>) opt)
      | Some v \<Rightarrow> Inl (Error ''json: cannot unmarshal into Go struct field plannerOptions.timeout of type float64''))"

text \<open>
  What \<open>plannerSetupFromMoveRequest\<close> takes from outside the source at hand:
  the default options, the names and the makers of the constraints, the
  default tolerances, and when \<^verbatim>\<open>json.Marshal\<close> refuses a map.
\<close>

record ('p, 'w, 'c, 'mt) setup_env =
  basicOptions :: "('c, 'mt) optionFields"
  defaultObstacleConstraintName :: string
  defaultSelfCollisionConstraintName :: string
  defaultLinearConstraintName :: string
  defaultPseudolinearConstraintName :: string
  defaultOrientationConstraintName :: string
  defaultLinearDeviation :: float64
  defaultPseudolinearTolerance :: float64
  defaultOrientationDeviation :: float64
  newSelfCollisionConstraint :: "seedMap \<Rightarrow> error + 'c"
  newObstacleConstraint :: "'w \<Rightarrow> seedMap \<Rightarrow> error + 'c"
  NewAbsoluteLinearInterpolatingConstraint :: "'p \<Rightarrow> 'p \<Rightarrow> float64 \<Rightarrow> float64 \<Rightarrow> 'c \<times> 'mt"
  NewProportionalLinearInterpolatingConstraint :: "'p \<Rightarrow> 'p \<Rightarrow> float64 \<Rightarrow> 'c \<times> 'mt"
  NewSlerpOrientationConstraint :: "'p \<Rightarrow> 'p \<Rightarrow> float64 \<Rightarrow> 'c \<times> 'mt"
  NewPositionOnlyMetric :: 'mt
  json_Marshal :: "extras \<Rightarrow> error option"

text \<open>\<^verbatim>\<open>v, ok := m[key].(float64)\<close> with a default for \<^verbatim>\<open>!ok\<close>.\<close>

definition float_or :: "extras \<Rightarrow> string \<Rightarrow> float64 \<Rightarrow> float64" where
  "float_or m key d = (case m key of Some (VFloat v) \<Rightarrow> v | _ \<Rightarrow> d)"

text \<open>The copy has the entries of the map; the maps of the model are values.\<close>

definition deepAtomicCopyMap :: "extras \<Rightarrow> extras" where
  "deepAtomicCopyMap opt = opt"

text \<open>
  The per-planner timeout after the JSON round trip: the number under
  \<^verbatim>\<open>timeout\<close>, or the value the options had.
\<close>

definition decodedTimeout :: "extras \<Rightarrow> float64 \<Rightarrow> float64" where
  "decodedTimeout m d =
     (case m ''timeout'' of Some (VFloat t) \<Rightarrow> t | Some (VInt n) \<Rightarrow> float_of_int n | _ \<Rightarrow> d)"

text \<open>The motion profile of a request, as the switch of the source reads it.\<close>

definition motionProfileOf :: "extras \<Rightarrow> string" where
  "motionProfileOf planningOpts =
     (case planningOpts ''motion_profile'' of Some (VString s) \<Rightarrow> s | _ \<Rightarrow> '''')"

text \<open>
  \<open>plannerSetupFromMoveRequest\<close>, in two parts. \<open>configuredOptions\<close> is the first
  half of its body (lines 410 to 445 of the source): the default options with
  the extras, the two collision constraints, the motion profile as a string,
  the JSON round trip. It gives the options and the motion profile. The second
  half chooses the algorithm, adds what the profile asks for, and in the
  default branch builds the options to try first, by a call of itself.
\<close>

definition configuredOptions ::
  "('p, 'w, 'c, 'mt) setup_env \<Rightarrow> seedMap \<Rightarrow> 'w \<Rightarrow> extras \<Rightarrow>
     error + ('c, 'mt) plannerOptions \<times> string" where
  "configuredOptions E seedMap worldState planningOpts =
     (let opt = with_fields (\<lambda>f. f\<lparr>extra := planningOpts\<rparr>) (newBasicPlannerOptions (basicOptions E)) in
      case newSelfCollisionConstraint E seedMap of
        Inl err \<Rightarrow> Inl err
      | Inr selfCollisionConstraint \<Rightarrow>
      (case newObstacleConstraint E worldState seedMap of
        Inl err \<Rightarrow> Inl err
      | Inr obstacleConstraint \<Rightarrow>
      (let opt = AddConstraint (defaultObstacleConstraintName E) obstacleConstraint opt;
           opt = AddConstraint (defaultSelfCollisionConstraintName E) selfCollisionConstraint opt in
       case (case planningOpts ''motion_profile'' of
               None \<Rightarrow> Inr ''''
             | Some (VString s) \<Rightarrow> Inr s
             | Some v \<Rightarrow> Inl (Error ''could not interpret motion_profile field as string'')) of
        Inl err \<Rightarrow> Inl err
      | Inr motionProfile \<Rightarrow>
      (case json_Marshal E planningOpts of
        Some err \<Rightarrow> Inl err
      | None \<Rightarrow>
      (case json_Unmarshal planningOpts opt of
        Inl err \<Rightarrow> Inl err
      | Inr opt \<Rightarrow> Inr (opt, motionProfile))))))"

function plannerSetupFromMoveRequest ::
  "('p, 'w, 'c, 'mt) setup_env \<Rightarrow> 'p \<Rightarrow> 'p \<Rightarrow> seedMap \<Rightarrow> 'w \<Rightarrow> extras \<Rightarrow> error + ('c, 'mt) plannerOptions" where
  "plannerSetupFromMoveRequest E from to seedMap worldState planningOpts =
     (case configuredOptions E seedMap worldState planningOpts of
        Inl err \<Rightarrow> Inl err
      | Inr (opt, motionProfile) \<Rightarrow>
      (case (case planningOpts ''planning_alg'' of
               None \<Rightarrow> Inr ''''
             | Some (VString s) \<Rightarrow> Inr s
             | Some v \<Rightarrow> Inl (Error ''could not interpret planning_alg field as string'')) of
        Inl err \<Rightarrow> Inl err
      | Inr planAlg \<Rightarrow>
        if planAlg = ''rrtstar''
        then Inr (with_fields (\<lambda>f. f\<lparr>PlannerConstructor := newRRTStarConnectMotionPlanner\<rparr>) opt)
        else
         (let opt = (if planAlg = ''cbirrt''
                     then with_fields (\<lambda>f. f\<lparr>PlannerConstructor := newCBiRRTMotionPlanner\<rparr>) opt
                     else opt) in
          if motionProfile = LinearMotionProfile then
            (let linTol = float_or planningOpts ''line_tolerance'' (defaultLinearDeviation E);
                 orientTol = float_or planningOpts ''orient_tolerance'' (defaultLinearDeviation E) in
             case NewAbsoluteLinearInterpolatingConstraint E from to linTol orientTol of
               (constraint, pathDist') \<Rightarrow>
                 Inr (with_fields (\<lambda>f. f\<lparr>pathDist := pathDist'\<rparr>)
                        (AddConstraint (defaultLinearConstraintName E) constraint opt)))
          else if motionProfile = PseudolinearMotionProfile then
            (let tolerance = float_or planningOpts ''tolerance'' (defaultPseudolinearTolerance E) in
             case NewProportionalLinearInterpolatingConstraint E from to tolerance of
               (constraint, pathDist') \<Rightarrow>
                 Inr (with_fields (\<lambda>f. f\<lparr>pathDist := pathDist'\<rparr>)
                        (AddConstraint (defaultPseudolinearConstraintName E) constraint opt)))
          else if motionProfile = OrientationMotionProfile then
            (let tolerance = float_or planningOpts ''tolerance'' (defaultOrientationDeviation E) in
             case NewSlerpOrientationConstraint E from to tolerance of
               (constraint, pathDist') \<Rightarrow>
                 Inr (with_fields (\<lambda>f. f\<lparr>pathDist := pathDist'\<rparr>)
                        (AddConstraint (defaultOrientationConstraintName E) constraint opt)))
          else if motionProfile = PositionOnlyMotionProfile then
            Inr (SetMetric (NewPositionOnlyMetric E) opt)
          else if planAlg = '''' then
            (let try1 = deepAtomicCopyMap planningOpts;
                 try1 = try1(''timeout'' \<mapsto> VFloat defaultFallbackTimeout);
                 try1 = try1(''planning_alg'' \<mapsto> VString ''rrtstar'') in
             case plannerSetupFromMoveRequest E from to seedMap worldState try1 of
               Inl err \<Rightarrow> Inl err
             | Inr try1Opt \<Rightarrow> Inr (with_Fallback (Some opt) try1Opt))
          else Inr opt)))"
  by pat_completeness auto
termination
  apply (relation "measure (\<lambda>(E, from, to, seedMap, worldState, planningOpts).
            if planningOpts ''planning_alg'' = Some (VString ''rrtstar'') then 0 else 1)")
   apply simp
  apply (auto simp: deepAtomicCopyMap_def split: option.splits ival.splits if_splits)
  done

declare plannerSetupFromMoveRequest.simps [simp del]

section \<open>Planner results and the plan evaluator\<close>

text \<open>
  A tree node, the maps of a planner and what a planner returns, with the
  fields the plan manager reads. The types are declared outside the source at
  hand. A Go map with nodes as keys is the list of its entries; \<open>steps\<close>,
  \<open>planerr\<close> and \<open>maps\<close> can be nil.
\<close>

record node =
  Q :: inputs
  cost :: float64

record rrtMaps =
  startMap :: "(node \<times> node) list"
  goalMap :: "(node \<times> node) list"
  optNode :: node

record rrtPlanReturn =
  steps :: "node list option"
  planerr :: "error option"
  maps :: "rrtMaps option"

text \<open>
  Modelled from the spec: \<^verbatim>\<open>toInputs\<close> and \<^verbatim>\<open>err\<close> are methods of
  \<^verbatim>\<open>rrtPlanReturn\<close> declared outside the source at hand. A path is the
  "finite ordered sequence of configurations" (section 3) of the nodes of the
  result; the error of a result is the one it carries.
\<close>

definition toInputs :: "rrtPlanReturn \<Rightarrow> inputs list" where
  "toInputs pr = map Q (case steps pr of None \<Rightarrow> [] | Some ns \<Rightarrow> ns)"

definition rrtPlanReturn_err :: "rrtPlanReturn \<Rightarrow> error option" where
  "rrtPlanReturn_err pr = planerr pr"

text \<open>
  Modelled from the spec: \<^verbatim>\<open>EvaluatePlan\<close> is declared outside the source at
  hand. "Path cost = sum of distanceFunc(path[i], path[i+1])" (section 4.7).
\<close>

fun EvaluatePlan :: "inputs list \<Rightarrow> (inputs \<Rightarrow> inputs \<Rightarrow> float64) \<Rightarrow> float64" where
  "EvaluatePlan (q # q' # path) distFunc = float_add (distFunc q q') (EvaluatePlan (q' # path) distFunc)"
| "EvaluatePlan path distFunc = Finite 0"

text \<open>
  \<open>goodPlan\<close> reads \<^verbatim>\<open>pr.maps.optNode.cost\<close> when the result has steps: with
  no maps that is a nil pointer dereference.
\<close>

definition goodPlan :: "rrtPlanReturn \<Rightarrow> ('c, 'mt) plannerOptions \<Rightarrow> error + bool \<times> float64" where
  "goodPlan pr opt =
     (let solutionCost = PosInf in
      case steps pr of
        None \<Rightarrow> Inr (False, solutionCost)
      | Some ns \<Rightarrow>
          (case maps pr of
             None \<Rightarrow> Inl (Panic ''invalid memory address or nil pointer dereference'')
           | Some m \<Rightarrow>
               if float_le (cost (optNode m)) (Finite 0) then Inr (True, solutionCost)
               else
                 (let solutionCost = EvaluatePlan (toInputs pr) (DistanceFunc (base opt)) in
                  if float_lt solutionCost (float_mul (cost (optNode m)) defaultOptimalityMultiple)
                  then Inr (True, solutionCost)
                  else Inr (False, solutionCost))))"


section \<open>A small setting for the examples\<close>

text \<open>
  Poses on a line, constraints given by a name and the poses they are made
  from, named metrics, default options that name the CBiRRT constructor with a
  timeout of 300 seconds, and a distance of 1 between any two configurations.
\<close>

definition example_setup_env :: "(real, unit, string \<times> real list, string) setup_env" where
  "example_setup_env =
     \<lparr> basicOptions =
         \<lparr> constraints = Map.empty, metric = ''squared_norm'', pathDist = ''zero'',
           extra = Map.empty, Timeout = Finite 300, DistanceFunc = (\<lambda>a b. Finite 1),
           PlannerConstructor = newCBiRRTMotionPlanner \<rparr>,
       defaultObstacleConstraintName = ''obstacle'',
       defaultSelfCollisionConstraintName = ''self_collision'',
       defaultLinearConstraintName = ''linear'',
       defaultPseudolinearConstraintName = ''pseudolinear'',
       defaultOrientationConstraintName = ''orientation'',
       defaultLinearDeviation = Finite (1 / 10),
       defaultPseudolinearTolerance = Finite (8 / 10),
       defaultOrientationDeviation = Finite (5 / 100),
       newSelfCollisionConstraint = (\<lambda>seedMap. Inr (''no_self_collision'', [])),
       newObstacleConstraint = (\<lambda>worldState seedMap. Inr (''no_obstacle_collision'', [])),
       NewAbsoluteLinearInterpolatingConstraint =
         (\<lambda>from to linTol orientTol. ((''on_line'', [from, to]), ''line_dist'')),
       NewProportionalLinearInterpolatingConstraint =
         (\<lambda>from to tol. ((''near_line'', [from, to]), ''line_dist'')),
       NewSlerpOrientationConstraint =
         (\<lambda>from to tol. ((''on_slerp'', [from, to]), ''slerp_dist'')),
       NewPositionOnlyMetric = ''position_only_metric'',
       json_Marshal = (\<lambda>m. None) \<rparr>"

section \<open>Properties of the collision graph\<close>

lemma float_le_NaN_left: "float_le NaN b = False" by simp
lemma float_le_NaN_right: "float_le a NaN = False" by (cases a) simp_all

lemma newGeometryGraph_rows:
  "foldl (\<lambda>d (name, g). d(name \<mapsto> Map.empty)) d0 xs n =
     (if n \<in> fst ` set xs then Some Map.empty else d0 n)"
  by (induction xs arbitrary: d0) (auto split: prod.splits)

lemma table_get_newGeometryGraph:
  "table_get (distances (newGeometryGraph xs ys)) a b = None"
  by (simp add: newGeometryGraph_def table_get_def newGeometryGraph_rows)

lemma table_get_upd:
  "table_get (d(a \<mapsto> row(b \<mapsto> v))) a' b' =
     (if a' = a then (if b' = b then Some v else row b') else table_get d a' b')"
  by (simp add: table_get_def)

lemma table_get_put:
  assumes "table_put d a b v = Inr d'"
  shows "table_get d' a' b' = (if a' = a \<and> b' = b then Some v else table_get d a' b')"
proof (cases "d a")
  case None
  with assms show ?thesis by (simp add: table_put_def)
next
  case (Some row)
  with assms have d': "d' = d(a \<mapsto> row(b \<mapsto> v))" by (simp add: table_put_def)
  have "table_get d a b' = row b'" by (simp add: table_get_def Some)
  then show ?thesis unfolding d' table_get_upd by simp
qed

lemma setDistance_distances:
  assumes "setDistance gg xn yn v = Inr gg'"
  shows "table_get (distances gg') a b =
           (if table_get (distances gg) yn xn \<noteq> None
            then (if a = yn \<and> b = xn then Some v else table_get (distances gg) a b)
            else (if a = xn \<and> b = yn then Some v else table_get (distances gg) a b))"
proof (cases "table_get (distances gg) yn xn")
  case None
  with assms obtain d where "table_put (distances gg) xn yn v = Inr d" and "gg' = gg\<lparr>distances := d\<rparr>"
    by (auto simp: setDistance_def split: sum.splits)
  then show ?thesis using None by (simp add: table_get_put)
next
  case (Some old)
  with assms obtain d where "table_put (distances gg) yn xn v = Inr d" and "gg' = gg\<lparr>distances := d\<rparr>"
    by (auto simp: setDistance_def split: sum.splits)
  then show ?thesis using Some by (simp add: table_get_put)
qed

lemma setDistance_one_entry:
  assumes "setDistance gg xn yn v = Inr gg'" and "one_entry_per_pair (distances gg)"
  shows "one_entry_per_pair (distances gg')"
  unfolding one_entry_per_pair_def
proof (intro allI impI)
  fix a b :: string
  assume ab: "a \<noteq> b"
  from assms(2) ab have old: "table_get (distances gg) a b = None \<or> table_get (distances gg) b a = None"
    by (simp add: one_entry_per_pair_def)
  note upd = setDistance_distances [OF assms(1)]
  show "table_get (distances gg') a b = None \<or> table_get (distances gg') b a = None"
  proof (cases "table_get (distances gg) yn xn")
    case None
    then have "table_get (distances gg') a b = (if a = xn \<and> b = yn then Some v else table_get (distances gg) a b)"
      and "table_get (distances gg') b a = (if b = xn \<and> a = yn then Some v else table_get (distances gg) b a)"
      by (simp_all add: upd)
    then show ?thesis using old ab None by (cases "a = xn \<and> b = yn"; cases "b = xn \<and> a = yn") auto
  next
    case (Some w)
    then have "table_get (distances gg') a b = (if a = yn \<and> b = xn then Some v else table_get (distances gg) a b)"
      and "table_get (distances gg') b a = (if b = yn \<and> a = xn then Some v else table_get (distances gg) b a)"
      by (simp_all add: upd)
    then show ?thesis using old ab Some by (cases "a = yn \<and> b = xn"; cases "b = yn \<and> a = xn") auto
  qed
qed

lemma setDistance_more:
  "setDistance gg xn yn v = Inr gg' \<Longrightarrow> gg_y gg' = gg_y gg \<and> gg_x gg' = gg_x gg"
  by (auto simp: setDistance_def split: option.splits sum.splits)

lemma newCollisionGraph_y_one_entry:
  assumes "one_entry_per_pair (distances cg)"
  shows "newCollisionGraph_y sp r xn xg ys cg = Next cg' \<or> newCollisionGraph_y sp r xn xg ys cg = Return cg'
           \<Longrightarrow> one_entry_per_pair (distances cg')"
  using assms
proof (induction ys arbitrary: cg)
  case Nil
  then show ?case by simp
next
  case (Cons p ys)
  obtain yn yg where p: "p = (yn, yg)" by (cases p)
  show ?case
    using Cons.prems Cons.IH
    by (auto simp: p split: if_splits prod.splits option.splits sum.splits
             dest: setDistance_one_entry)
qed

lemma newCollisionGraph_x_one_entry:
  "one_entry_per_pair (distances cg) \<Longrightarrow> newCollisionGraph_x sp r xs cg = Inr cg'
     \<Longrightarrow> one_entry_per_pair (distances cg')"
proof (induction xs arbitrary: cg)
  case Nil
  then show ?case by simp
next
  case (Cons p xs)
  obtain xn xg where p: "p = (xn, xg)" by (cases p)
  show ?case
    using Cons.prems Cons.IH newCollisionGraph_y_one_entry [of cg sp r xn xg "gg_y cg"]
    by (auto simp: p split: loop_exit.splits)
qed

lemma newCollisionGraph_one_entry:
  assumes "newCollisionGraph sp xs ys r report = Inr cg"
  shows "one_entry_per_pair (distances cg)"
proof -
  let ?ys = "case ys of None \<Rightarrow> xs | Some l \<Rightarrow> l"
  let ?cg0 = "geometryGraph.extend (newGeometryGraph xs ?ys) (collisionGraph.fields report)"
  have d0: "distances ?cg0 = distances (newGeometryGraph xs ?ys)"
    by (simp add: geometryGraph.defs collisionGraph.defs)
  have "one_entry_per_pair (distances ?cg0)"
    unfolding d0 by (simp add: one_entry_per_pair_def table_get_newGeometryGraph)
  moreover have "newCollisionGraph_x sp r (gg_x ?cg0) ?cg0 = Inr cg"
    using assms by (simp add: newCollisionGraph_def Let_def)
  ultimately show ?thesis by (rule newCollisionGraph_x_one_entry)
qed

lemma built_graph_one_entry: "built_graph sp cg \<Longrightarrow> one_entry_per_pair (distances cg)"
proof (induction rule: built_graph.induct)
  case (built_new sp xs ys reference report cg)
  then show ?case by (rule newCollisionGraph_one_entry)
next
  case (built_spec sp cg c cg')
  then show ?case
    by (auto simp: addCollisionSpecification_def dest: setDistance_one_entry)
qed

lemma getDistance_sym:
  assumes "one_entry_per_pair (distances cg)"
  shows "getDistance cg a b = getDistance cg b a"
proof (cases "a = b")
  case True
  then show ?thesis by simp
next
  case False
  with assms have "table_get (distances cg) a b = None \<or> table_get (distances cg) b a = None"
    by (simp add: one_entry_per_pair_def)
  then show ?thesis by (auto simp: getDistance_def split: option.splits)
qed

lemma collisionBetween_iff:
  "collisionBetween sp cg a b \<longleftrightarrow>
     (\<exists>d. getDistance cg a b = (d, True) \<and> float_le d (CollisionBuffer sp))"
proof (cases "getDistance cg a b")
  case (Pair d ok)
  then show ?thesis by (cases ok) (simp_all add: collisionBetween_def)
qed

lemma getDistance_found:
  "snd (getDistance cg a b) \<longleftrightarrow>
     table_get (distances cg) a b \<noteq> None \<or> table_get (distances cg) b a \<noteq> None"
  by (auto simp: getDistance_def split: option.splits)

lemma addCollisionSpecification_ignored:
  assumes "one_entry_per_pair (distances cg)" and "addCollisionSpecification cg c = Inr cg'"
  shows "getDistance cg' (name1 c) (name2 c) = (NaN, True)"
proof -
  from assms(2) have sd: "setDistance cg (name1 c) (name2 c) NaN = Inr cg'"
    by (simp add: addCollisionSpecification_def)
  show ?thesis
  proof (cases "name1 c = name2 c")
    case True
    then show ?thesis
      by (auto simp: getDistance_def setDistance_distances [OF sd] split: option.splits)
  next
    case False
    with assms(1) have "table_get (distances cg) (name1 c) (name2 c) = None
        \<or> table_get (distances cg) (name2 c) (name1 c) = None"
      by (simp add: one_entry_per_pair_def)
    then show ?thesis using False
      by (auto simp: getDistance_def setDistance_distances [OF sd] split: option.splits)
  qed
qed


text \<open>
  Claim C9. In every graph that \<open>newCollisionGraph\<close> returns, and in every graph
  made of one by \<open>addCollisionSpecification\<close>, a pair of names has at most one
  entry of the table, so \<open>getDistance\<close> and \<open>collisionBetween\<close> give the same
  answer for \<open>(a, b)\<close> and \<open>(b, a)\<close>. \<open>getDistance\<close> finds a distance exactly
  when the table holds one for the pair, in either order. \<open>collisionBetween\<close> is
  true exactly when a distance is found and it is at most the collision
  buffer: a pair with no distance, and a pair whose distance is NaN (as
  \<open>addCollisionSpecification\<close> stores it), is not a collision.
\<close>

theorem collisionGraph_unordered_pair:
  assumes "built_graph sp cg"
  shows "one_entry_per_pair (distances cg)
     \<and> getDistance cg a b = getDistance cg b a
     \<and> collisionBetween sp cg a b = collisionBetween sp cg b a
     \<and> (snd (getDistance cg a b) \<longleftrightarrow>
           table_get (distances cg) a b \<noteq> None \<or> table_get (distances cg) b a \<noteq> None)
     \<and> (collisionBetween sp cg a b \<longleftrightarrow>
           (\<exists>d. getDistance cg a b = (d, True) \<and> float_le d (CollisionBuffer sp)))
     \<and> (\<not> snd (getDistance cg a b) \<longrightarrow> \<not> collisionBetween sp cg a b)
     \<and> (fst (getDistance cg a b) = NaN \<longrightarrow> \<not> collisionBetween sp cg a b)
     \<and> (\<forall>c cg'. addCollisionSpecification cg c = Inr cg' \<longrightarrow>
           getDistance cg' (name1 c) (name2 c) = (NaN, True)
           \<and> \<not> collisionBetween sp cg' (name1 c) (name2 c)
           \<and> \<not> collisionBetween sp cg' (name2 c) (name1 c))"
proof -
  have inv: "one_entry_per_pair (distances cg)"
    using assms by (rule built_graph_one_entry)
  have sym: "getDistance cg a b = getDistance cg b a"
    using inv by (rule getDistance_sym)
  have csym: "collisionBetween sp cg a b = collisionBetween sp cg b a"
    by (simp add: collisionBetween_def sym)
  have unset: "\<not> snd (getDistance cg a b) \<longrightarrow> \<not> collisionBetween sp cg a b"
    by (auto simp: collisionBetween_iff)
  have nan: "fst (getDistance cg a b) = NaN \<longrightarrow> \<not> collisionBetween sp cg a b"
    by (auto simp: collisionBetween_iff)
  have spec: "\<forall>c cg'. addCollisionSpecification cg c = Inr cg' \<longrightarrow>
           getDistance cg' (name1 c) (name2 c) = (NaN, True)
           \<and> \<not> collisionBetween sp cg' (name1 c) (name2 c)
           \<and> \<not> collisionBetween sp cg' (name2 c) (name1 c)"
  proof (intro allI impI)
    fix c cg'
    assume add: "addCollisionSpecification cg c = Inr cg'"
    have g: "getDistance cg' (name1 c) (name2 c) = (NaN, True)"
      using inv add by (rule addCollisionSpecification_ignored)
    have "built_graph sp cg'"
      using assms add by (rule built_spec)
    then have "getDistance cg' (name2 c) (name1 c) = getDistance cg' (name1 c) (name2 c)"
      by (intro getDistance_sym built_graph_one_entry)
    with g show "getDistance cg' (name1 c) (name2 c) = (NaN, True)
           \<and> \<not> collisionBetween sp cg' (name1 c) (name2 c)
           \<and> \<not> collisionBetween sp cg' (name2 c) (name1 c)"
      by (simp add: collisionBetween_def)
  qed
  show ?thesis
    using inv sym csym unset nan spec getDistance_found [of cg a b] collisionBetween_iff [of sp cg a b]
    by blast
qed

text \<open>
  An arm, a box one unit away and a wall eight units away, with distances
  reported: the arm and the box collide, in both orders, until the pair is
  given as a collision specification.
\<close>

theorem collisionGraph_unordered_pair_witness:
  "\<exists>cg cg'. newCollisionGraph
        \<lparr> CollisionBuffer = Finite (1 / 100000000),
          DistanceFrom = (\<lambda>gx gy. (Finite (real_of_int \<bar>gx - gy\<bar> - 3), None)),
          CollidesWith = (\<lambda>gx gy. (\<bar>gx - gy\<bar> < 3, None)) \<rparr>
        [(''arm'', 1 :: int), (''box'', 2), (''wall'', 9)] None None True = Inr cg
     \<and> addCollisionSpecification cg \<lparr> name1 = ''box'', name2 = ''arm'', penetrationDepth = NaN \<rparr> = Inr cg'
     \<and> getDistance cg ''box'' ''arm'' = (Finite (- 2), True)
     \<and> getDistance cg ''arm'' ''box'' = getDistance cg ''box'' ''arm''
     \<and> collisionBetween \<lparr> CollisionBuffer = Finite (1 / 100000000),
          DistanceFrom = (\<lambda>gx gy. (Finite (real_of_int \<bar>gx - gy\<bar> - 3), None)),
          CollidesWith = (\<lambda>gx gy. (\<bar>gx - gy\<bar> < 3, None)) \<rparr> cg ''box'' ''arm''
     \<and> \<not> collisionBetween \<lparr> CollisionBuffer = Finite (1 / 100000000),
          DistanceFrom = (\<lambda>gx gy. (Finite (real_of_int \<bar>gx - gy\<bar> - 3), None)),
          CollidesWith = (\<lambda>gx gy. (\<bar>gx - gy\<bar> < 3, None)) \<rparr> cg ''wall'' ''arm''
     \<and> \<not> collisionBetween \<lparr> CollisionBuffer = Finite (1 / 100000000),
          DistanceFrom = (\<lambda>gx gy. (Finite (real_of_int \<bar>gx - gy\<bar> - 3), None)),
          CollidesWith = (\<lambda>gx gy. (\<bar>gx - gy\<bar> < 3, None)) \<rparr> cg' ''arm'' ''box''"
proof -
  let ?sp = "\<lparr> CollisionBuffer = Finite (1 / 100000000),
          DistanceFrom = (\<lambda>gx gy :: int. (Finite (real_of_int \<bar>gx - gy\<bar> - 3), None)),
          CollidesWith = (\<lambda>gx gy. (\<bar>gx - gy\<bar> < 3, None)) \<rparr>"
  let ?new = "newCollisionGraph ?sp [(''arm'', 1 :: int), (''box'', 2), (''wall'', 9)] None None True"
  have "\<exists>cg. ?new = Inr cg \<and> getDistance cg ''box'' ''arm'' = (Finite (- 2), True)
           \<and> \<not> collisionBetween ?sp cg ''wall'' ''arm''"
    by (simp add: newCollisionGraph_def newGeometryGraph_def geometryGraph.defs collisionGraph.defs
          getDistance_def table_get_def table_put_def setDistance_def checkCollision_def
          collisionBetween_def Let_def)
  then obtain cg where new: "?new = Inr cg" and d: "getDistance cg ''box'' ''arm'' = (Finite (- 2), True)"
    and w: "\<not> collisionBetween ?sp cg ''wall'' ''arm''"
    by blast
  have "\<exists>cg'. addCollisionSpecification cg \<lparr> name1 = ''box'', name2 = ''arm'', penetrationDepth = NaN \<rparr> = Inr cg'"
    using new
    by (auto simp add: newCollisionGraph_def newGeometryGraph_def geometryGraph.defs collisionGraph.defs
          getDistance_def table_get_def table_put_def setDistance_def checkCollision_def
          collisionBetween_def addCollisionSpecification_def Let_def)
  then obtain cg' where add: "addCollisionSpecification cg \<lparr> name1 = ''box'', name2 = ''arm'', penetrationDepth = NaN \<rparr> = Inr cg'"
    by blast
  have b: "built_graph ?sp cg"
    using new by (rule built_new)
  note t = collisionGraph_unordered_pair [OF b, of "''arm''" "''box''"]
  from t have s: "getDistance cg ''arm'' ''box'' = getDistance cg ''box'' ''arm''"
    by blast
  from d have c: "collisionBetween ?sp cg ''box'' ''arm''"
    by (simp add: collisionBetween_def)
  from t add have "\<not> collisionBetween ?sp cg' ''arm'' ''box''"
    by fastforce
  with new add d s c w show ?thesis
    by blast
qed

section \<open>Properties of the plan evaluator\<close>

lemma EvaluatePlan_sum:
  assumes "\<And>a b. distFunc a b = Finite (f a b)"
  shows "EvaluatePlan path distFunc = Finite (\<Sum>i<length path - 1. f (path ! i) (path ! Suc i))"
  using assms
proof (induction path distFunc rule: EvaluatePlan.induct)
  case (1 q q' path distFunc)
  have "(\<Sum>i<Suc (length path). f ((q # q' # path) ! i) ((q' # path) ! i)) =
        f q q' + (\<Sum>i<length path. f ((q' # path) ! i) (path ! i))"
    by (subst sum.lessThan_Suc_shift) simp
  with 1 show ?case by simp
qed (simp_all)


lemma goodPlan_no_path: "steps pr = None \<Longrightarrow> goodPlan pr opt = Inr (False, PosInf)"
  by (simp add: goodPlan_def)

text \<open>
  Claim C6. For a result with steps (and the maps that \<open>goodPlan\<close> reads): when
  the optimal cost is not positive, the plan is good enough; otherwise the plan
  is good enough exactly when its cost is less than the optimal cost times 2.0,
  and that cost is the score returned. The cost is \<open>EvaluatePlan\<close> on the
  configurations of the steps, which for a distance function with finite values
  is the sum of the distances of adjacent configurations.
\<close>

theorem goodPlan_within_optimal_multiple:
  assumes "steps pr = Some ns" and "maps pr = Some m"
  shows "(float_le (cost (optNode m)) (Finite 0) \<longrightarrow> (\<exists>c. goodPlan pr opt = Inr (True, c)))
     \<and> (\<not> float_le (cost (optNode m)) (Finite 0) \<longrightarrow>
           goodPlan pr opt =
             Inr (float_lt (EvaluatePlan (toInputs pr) (DistanceFunc (base opt)))
                    (float_mul (cost (optNode m)) (Finite 2)),
                  EvaluatePlan (toInputs pr) (DistanceFunc (base opt))))
     \<and> toInputs pr = map Q ns
     \<and> (\<forall>f. (\<forall>a b. DistanceFunc (base opt) a b = Finite (f a b)) \<longrightarrow>
           EvaluatePlan (toInputs pr) (DistanceFunc (base opt)) =
             Finite (\<Sum>i<length ns - 1. f (Q (ns ! i)) (Q (ns ! Suc i))))"
proof -
  have path: "toInputs pr = map Q ns"
    using assms(1) by (simp add: toInputs_def)
  have degenerate: "float_le (cost (optNode m)) (Finite 0) \<longrightarrow> (\<exists>c. goodPlan pr opt = Inr (True, c))"
    using assms by (simp add: goodPlan_def)
  have regular: "\<not> float_le (cost (optNode m)) (Finite 0) \<longrightarrow>
           goodPlan pr opt =
             Inr (float_lt (EvaluatePlan (toInputs pr) (DistanceFunc (base opt)))
                    (float_mul (cost (optNode m)) (Finite 2)),
                  EvaluatePlan (toInputs pr) (DistanceFunc (base opt)))"
    using assms by (simp add: goodPlan_def defaultOptimalityMultiple_def Let_def)
  have total: "\<forall>f. (\<forall>a b. DistanceFunc (base opt) a b = Finite (f a b)) \<longrightarrow>
           EvaluatePlan (toInputs pr) (DistanceFunc (base opt)) =
             Finite (\<Sum>i<length ns - 1. f (Q (ns ! i)) (Q (ns ! Suc i)))"
  proof (intro allI impI)
    fix f
    assume fin: "\<forall>a b. DistanceFunc (base opt) a b = Finite (f a b)"
    have "EvaluatePlan (map Q ns) (DistanceFunc (base opt)) =
            Finite (\<Sum>i<length (map Q ns) - 1. f (map Q ns ! i) (map Q ns ! Suc i))"
      using fin by (intro EvaluatePlan_sum) simp
    also have "(\<Sum>i<length (map Q ns) - 1. f (map Q ns ! i) (map Q ns ! Suc i)) =
               (\<Sum>i<length ns - 1. f (Q (ns ! i)) (Q (ns ! Suc i)))"
      by (rule sum.cong) auto
    finally show "EvaluatePlan (toInputs pr) (DistanceFunc (base opt)) =
             Finite (\<Sum>i<length ns - 1. f (Q (ns ! i)) (Q (ns ! Suc i)))"
      by (simp add: path)
  qed
  show ?thesis
    using path degenerate regular total by blast
qed

text \<open>
  Three steps at distance 1 from each other, so a cost of 2: good enough for
  an optimal cost of 3, not good enough for an optimal cost of 1, good enough
  for an optimal cost of 0.
\<close>

theorem goodPlan_within_optimal_multiple_witness:
  "goodPlan
     \<lparr> steps = Some [\<lparr>Q = [Finite 0], cost = Finite 0\<rparr>, \<lparr>Q = [Finite 1], cost = Finite 1\<rparr>,
                     \<lparr>Q = [Finite 2], cost = Finite 2\<rparr>],
       planerr = None,
       maps = Some \<lparr> startMap = [], goalMap = [], optNode = \<lparr>Q = [Finite 2], cost = Finite 3\<rparr> \<rparr> \<rparr>
     (newBasicPlannerOptions (basicOptions example_setup_env)) = Inr (True, Finite 2)
   \<and> goodPlan
     \<lparr> steps = Some [\<lparr>Q = [Finite 0], cost = Finite 0\<rparr>, \<lparr>Q = [Finite 1], cost = Finite 1\<rparr>,
                     \<lparr>Q = [Finite 2], cost = Finite 2\<rparr>],
       planerr = None,
       maps = Some \<lparr> startMap = [], goalMap = [], optNode = \<lparr>Q = [Finite 2], cost = Finite 1\<rparr> \<rparr> \<rparr>
     (newBasicPlannerOptions (basicOptions example_setup_env)) = Inr (False, Finite 2)
   \<and> (\<exists>c. goodPlan
     \<lparr> steps = Some [\<lparr>Q = [Finite 0], cost = Finite 0\<rparr>, \<lparr>Q = [Finite 1], cost = Finite 1\<rparr>,
                     \<lparr>Q = [Finite 2], cost = Finite 2\<rparr>],
       planerr = None,
       maps = Some \<lparr> startMap = [], goalMap = [], optNode = \<lparr>Q = [Finite 2], cost = Finite 0\<rparr> \<rparr> \<rparr>
     (newBasicPlannerOptions (basicOptions example_setup_env)) = Inr (True, c))"
proof -
  let ?ns = "[\<lparr>Q = [Finite 0], cost = Finite 0\<rparr>, \<lparr>Q = [Finite 1], cost = Finite 1\<rparr>,
              \<lparr>Q = [Finite 2], cost = Finite 2\<rparr>]"
  let ?opt = "newBasicPlannerOptions (basicOptions example_setup_env) :: (string \<times> real list, string) plannerOptions"
  let ?m = "\<lambda>c. \<lparr> startMap = [], goalMap = [], optNode = \<lparr>Q = [Finite 2], cost = Finite c\<rparr> \<rparr>"
  let ?pr = "\<lambda>c. \<lparr> steps = Some ?ns, planerr = None, maps = Some (?m c) \<rparr>"
  have ev: "EvaluatePlan (toInputs (?pr c)) (DistanceFunc (base ?opt)) = Finite 2" for c
    by (simp add: toInputs_def newBasicPlannerOptions_def example_setup_env_def)
  have "goodPlan (?pr 3) ?opt = Inr (True, Finite 2)"
    using goodPlan_within_optimal_multiple [of "?pr 3" ?ns "?m 3" ?opt] by (simp add: ev)
  moreover have "goodPlan (?pr 1) ?opt = Inr (False, Finite 2)"
    using goodPlan_within_optimal_multiple [of "?pr 1" ?ns "?m 1" ?opt] by (simp add: ev)
  moreover have "\<exists>c. goodPlan (?pr 0) ?opt = Inr (True, c)"
    using goodPlan_within_optimal_multiple [of "?pr 0" ?ns "?m 0" ?opt] by simp
  ultimately show ?thesis by simp
qed

section \<open>Properties of the planner options\<close>

lemma base_with_fields [simp]: "base (with_fields f opt) = f (base opt)"
  by (simp add: with_fields_def)

lemma Fallback_with_fields [simp]: "Fallback (with_fields f opt) = Fallback opt"
  by (simp add: with_fields_def)

lemma base_with_Fallback [simp]: "base (with_Fallback fb opt) = base opt"
  by (simp add: with_Fallback_def)

lemma Fallback_with_Fallback [simp]: "Fallback (with_Fallback fb opt) = fb"
  by (simp add: with_Fallback_def)

lemma json_Unmarshal_Inr:
  assumes "json_Unmarshal m opt = Inr opt'"
  shows "opt' = with_fields (\<lambda>f. f\<lparr>Timeout := decodedTimeout m (Timeout (base opt))\<rparr>) opt"
proof (cases "m ''timeout''")
  case None
  with assms show ?thesis
    by (cases opt) (simp add: json_Unmarshal_def decodedTimeout_def with_fields_def)
next
  case (Some v)
  with assms show ?thesis
    by (cases v) (simp_all add: json_Unmarshal_def decodedTimeout_def)
qed

lemma motion_profile_string:
  assumes "(case planningOpts ''motion_profile'' of
               None \<Rightarrow> Inr ''''
             | Some (VString s) \<Rightarrow> Inr s
             | Some v \<Rightarrow> Inl (Error ''could not interpret motion_profile field as string'')) = Inr mp"
  shows "mp = motionProfileOf planningOpts"
    and "planningOpts ''motion_profile'' = None \<or> planningOpts ''motion_profile'' = Some (VString mp)"
proof -
  show "mp = motionProfileOf planningOpts"
  proof (cases "planningOpts ''motion_profile''")
    case None
    with assms show ?thesis by (simp add: motionProfileOf_def)
  next
    case (Some v)
    with assms show ?thesis by (cases v) (simp_all add: motionProfileOf_def)
  qed
  show "planningOpts ''motion_profile'' = None \<or> planningOpts ''motion_profile'' = Some (VString mp)"
  proof (cases "planningOpts ''motion_profile''")
    case None
    then show ?thesis by simp
  next
    case (Some v)
    with assms show ?thesis by (cases v) simp_all
  qed
qed

lemma configuredOptions_Inr:
  assumes "configuredOptions E seedMap worldState planningOpts = Inr (opt, mp)"
  shows "\<exists>sc oc. newSelfCollisionConstraint E seedMap = Inr sc
           \<and> newObstacleConstraint E worldState seedMap = Inr oc
           \<and> opt = PlannerOptions
                ((basicOptions E)
                   \<lparr> constraints := (constraints (basicOptions E))
                        (defaultObstacleConstraintName E \<mapsto> oc, defaultSelfCollisionConstraintName E \<mapsto> sc),
                     extra := planningOpts,
                     Timeout := decodedTimeout planningOpts (Timeout (basicOptions E)) \<rparr>) None"
    and "mp = motionProfileOf planningOpts"
    and "planningOpts ''motion_profile'' = None \<or> planningOpts ''motion_profile'' = Some (VString mp)"
    and "json_Marshal E planningOpts = None"
proof -
  obtain sc where sc: "newSelfCollisionConstraint E seedMap = Inr sc"
    using assms by (cases "newSelfCollisionConstraint E seedMap") (simp_all add: configuredOptions_def)
  obtain oc where oc: "newObstacleConstraint E worldState seedMap = Inr oc"
    using assms sc by (cases "newObstacleConstraint E worldState seedMap") (simp_all add: configuredOptions_def)
  let ?mp = "case planningOpts ''motion_profile'' of
               None \<Rightarrow> Inr ''''
             | Some (VString s) \<Rightarrow> Inr s
             | Some v \<Rightarrow> Inl (Error ''could not interpret motion_profile field as string'')"
  obtain mp' where mp': "?mp = Inr mp'"
    using assms sc oc by (cases ?mp) (simp_all add: configuredOptions_def)
  have jm: "json_Marshal E planningOpts = None"
    using assms sc oc mp' by (cases "json_Marshal E planningOpts") (simp_all add: configuredOptions_def)
  let ?o = "AddConstraint (defaultSelfCollisionConstraintName E) sc
              (AddConstraint (defaultObstacleConstraintName E) oc
                (with_fields (\<lambda>f. f\<lparr>extra := planningOpts\<rparr>) (newBasicPlannerOptions (basicOptions E))))"
  have un: "json_Unmarshal planningOpts ?o = Inr opt" and eq: "mp' = mp"
    using assms sc oc mp' jm
    by (cases "json_Unmarshal planningOpts ?o"; simp add: configuredOptions_def)+
  have "opt = PlannerOptions
                ((basicOptions E)
                   \<lparr> constraints := (constraints (basicOptions E))
                        (defaultObstacleConstraintName E \<mapsto> oc, defaultSelfCollisionConstraintName E \<mapsto> sc),
                     extra := planningOpts,
                     Timeout := decodedTimeout planningOpts (Timeout (basicOptions E)) \<rparr>) None"
    unfolding json_Unmarshal_Inr [OF un]
    by (simp add: AddConstraint_def newBasicPlannerOptions_def with_fields_def)
  with sc oc show "\<exists>sc oc. newSelfCollisionConstraint E seedMap = Inr sc
           \<and> newObstacleConstraint E worldState seedMap = Inr oc
           \<and> opt = PlannerOptions
                ((basicOptions E)
                   \<lparr> constraints := (constraints (basicOptions E))
                        (defaultObstacleConstraintName E \<mapsto> oc, defaultSelfCollisionConstraintName E \<mapsto> sc),
                     extra := planningOpts,
                     Timeout := decodedTimeout planningOpts (Timeout (basicOptions E)) \<rparr>) None"
    by blast
  show "mp = motionProfileOf planningOpts"
    using mp' motion_profile_string(1) [of planningOpts mp'] eq by simp
  show "planningOpts ''motion_profile'' = None \<or> planningOpts ''motion_profile'' = Some (VString mp)"
    using mp' motion_profile_string(2) [of planningOpts mp'] eq by simp
  show "json_Marshal E planningOpts = None" by (rule jm)
qed

text \<open>The first half does not read the algorithm, and reads the timeout only in the round trip.\<close>

lemma configuredOptions_try1:
  assumes "configuredOptions E seedMap worldState planningOpts = Inr (opt, mp)"
    and "configuredOptions E seedMap worldState
           (planningOpts(''timeout'' \<mapsto> VFloat t, ''planning_alg'' \<mapsto> VString a)) = Inr (opt1, mp1)"
  shows "opt1 = with_fields (\<lambda>f. f\<lparr>extra := planningOpts(''timeout'' \<mapsto> VFloat t, ''planning_alg'' \<mapsto> VString a),
                                   Timeout := t\<rparr>) opt"
    and "mp1 = mp"
proof -
  let ?try1 = "planningOpts(''timeout'' \<mapsto> VFloat t, ''planning_alg'' \<mapsto> VString a)"
  from configuredOptions_Inr(1) [OF assms(1)] obtain sc oc where
    sc: "newSelfCollisionConstraint E seedMap = Inr sc" and oc: "newObstacleConstraint E worldState seedMap = Inr oc"
    and opt: "opt = PlannerOptions
                ((basicOptions E)
                   \<lparr> constraints := (constraints (basicOptions E))
                        (defaultObstacleConstraintName E \<mapsto> oc, defaultSelfCollisionConstraintName E \<mapsto> sc),
                     extra := planningOpts,
                     Timeout := decodedTimeout planningOpts (Timeout (basicOptions E)) \<rparr>) None"
    by blast
  from configuredOptions_Inr(1) [OF assms(2)] sc oc have opt1: "opt1 = PlannerOptions
                ((basicOptions E)
                   \<lparr> constraints := (constraints (basicOptions E))
                        (defaultObstacleConstraintName E \<mapsto> oc, defaultSelfCollisionConstraintName E \<mapsto> sc),
                     extra := ?try1,
                     Timeout := decodedTimeout ?try1 (Timeout (basicOptions E)) \<rparr>) None"
    by auto
  have "decodedTimeout ?try1 d = t" for d
    by (simp add: decodedTimeout_def)
  then show "opt1 = with_fields (\<lambda>f. f\<lparr>extra := ?try1, Timeout := t\<rparr>) opt"
    by (simp add: opt opt1 with_fields_def)
  have "motionProfileOf ?try1 = motionProfileOf planningOpts"
    by (simp add: motionProfileOf_def)
  then show "mp1 = mp"
    using configuredOptions_Inr(2) [OF assms(1)] configuredOptions_Inr(2) [OF assms(2)] by simp
qed

lemma setup_rrtstar:
  assumes "planningOpts ''planning_alg'' = Some (VString ''rrtstar'')"
  shows "plannerSetupFromMoveRequest E from to seedMap worldState planningOpts =
           (case configuredOptions E seedMap worldState planningOpts of
              Inl err \<Rightarrow> Inl err
            | Inr (opt, mp) \<Rightarrow>
                Inr (with_fields (\<lambda>f. f\<lparr>PlannerConstructor := newRRTStarConnectMotionPlanner\<rparr>) opt))"
  by (subst plannerSetupFromMoveRequest.simps) (simp add: assms split: sum.splits prod.splits)

lemma setup_no_alg:
  assumes "planningOpts ''planning_alg'' = None"
    and "configuredOptions E seedMap worldState planningOpts = Inr (opt, mp)"
  shows "plannerSetupFromMoveRequest E from to seedMap worldState planningOpts =
          (if mp = LinearMotionProfile then
            (case NewAbsoluteLinearInterpolatingConstraint E from to
                    (float_or planningOpts ''line_tolerance'' (defaultLinearDeviation E))
                    (float_or planningOpts ''orient_tolerance'' (defaultLinearDeviation E)) of
               (constraint, pathDist') \<Rightarrow>
                 Inr (with_fields (\<lambda>f. f\<lparr>pathDist := pathDist'\<rparr>)
                        (AddConstraint (defaultLinearConstraintName E) constraint opt)))
          else if mp = PseudolinearMotionProfile then
            (case NewProportionalLinearInterpolatingConstraint E from to
                    (float_or planningOpts ''tolerance'' (defaultPseudolinearTolerance E)) of
               (constraint, pathDist') \<Rightarrow>
                 Inr (with_fields (\<lambda>f. f\<lparr>pathDist := pathDist'\<rparr>)
                        (AddConstraint (defaultPseudolinearConstraintName E) constraint opt)))
          else if mp = OrientationMotionProfile then
            (case NewSlerpOrientationConstraint E from to
                    (float_or planningOpts ''tolerance'' (defaultOrientationDeviation E)) of
               (constraint, pathDist') \<Rightarrow>
                 Inr (with_fields (\<lambda>f. f\<lparr>pathDist := pathDist'\<rparr>)
                        (AddConstraint (defaultOrientationConstraintName E) constraint opt)))
          else if mp = PositionOnlyMotionProfile then
            Inr (SetMetric (NewPositionOnlyMetric E) opt)
          else
            (case plannerSetupFromMoveRequest E from to seedMap worldState
                    (planningOpts(''timeout'' \<mapsto> VFloat defaultFallbackTimeout,
                                  ''planning_alg'' \<mapsto> VString ''rrtstar'')) of
               Inl err \<Rightarrow> Inl err
             | Inr try1Opt \<Rightarrow> Inr (with_Fallback (Some opt) try1Opt)))"
  by (subst plannerSetupFromMoveRequest.simps)
     (simp add: assms Let_def deepAtomicCopyMap_def)

lemma setup_try1:
  assumes "configuredOptions E seedMap worldState planningOpts = Inr (opt, mp)"
    and "plannerSetupFromMoveRequest E from to seedMap worldState
           (planningOpts(''timeout'' \<mapsto> VFloat t, ''planning_alg'' \<mapsto> VString ''rrtstar'')) = Inr try1Opt"
  shows "try1Opt = with_fields (\<lambda>f. f\<lparr>extra := planningOpts(''timeout'' \<mapsto> VFloat t,
                                                               ''planning_alg'' \<mapsto> VString ''rrtstar''),
                                   Timeout := t,
                                   PlannerConstructor := newRRTStarConnectMotionPlanner\<rparr>) opt"
proof -
  let ?try1 = "planningOpts(''timeout'' \<mapsto> VFloat t, ''planning_alg'' \<mapsto> VString ''rrtstar'')"
  have alg: "?try1 ''planning_alg'' = Some (VString ''rrtstar'')" by simp
  obtain opt1 mp1 where c1: "configuredOptions E seedMap worldState ?try1 = Inr (opt1, mp1)"
    and r: "try1Opt = with_fields (\<lambda>f. f\<lparr>PlannerConstructor := newRRTStarConnectMotionPlanner\<rparr>) opt1"
    using assms(2) setup_rrtstar [of ?try1 E "from" to seedMap worldState, OF alg]
    by (cases "configuredOptions E seedMap worldState ?try1") auto
  show ?thesis
    unfolding r configuredOptions_try1(1) [OF assms(1) c1]
    by (simp add: with_fields_def)
qed

lemma setup_Inl:
  "configuredOptions E seedMap worldState planningOpts = Inl e \<Longrightarrow>
   plannerSetupFromMoveRequest E p_from p_to seedMap worldState planningOpts = Inl e"
  by (subst plannerSetupFromMoveRequest.simps) simp

text \<open>
  Claim C7. For a request with \<^verbatim>\<open>planning_alg = "rrtstar"\<close>,
  \<open>plannerSetupFromMoveRequest\<close> fails only where its first half fails (a
  collision constraint, a motion profile that is not a string, the JSON round
  trip), and otherwise returns options with the RRT* constructor, no fallback,
  the constraints of the default options with the obstacle and self-collision
  constraints added and nothing else, and the metric and path distance of the
  default options. The result does not depend on the two poses, which only the
  constraints of a motion profile read.
\<close>

theorem rrtstar_returns_early:
  assumes "planningOpts ''planning_alg'' = Some (VString ''rrtstar'')"
  shows "case plannerSetupFromMoveRequest E p_from p_to seedMap worldState planningOpts of
           Inl e \<Rightarrow> configuredOptions E seedMap worldState planningOpts = Inl e
         | Inr opt \<Rightarrow>
             PlannerConstructor (base opt) = newRRTStarConnectMotionPlanner
           \<and> Fallback opt = None
           \<and> (\<exists>sc oc. newSelfCollisionConstraint E seedMap = Inr sc
                \<and> newObstacleConstraint E worldState seedMap = Inr oc
                \<and> constraints (base opt) = (constraints (basicOptions E))
                     (defaultObstacleConstraintName E \<mapsto> oc, defaultSelfCollisionConstraintName E \<mapsto> sc))
           \<and> metric (base opt) = metric (basicOptions E)
           \<and> pathDist (base opt) = pathDist (basicOptions E)
           \<and> extra (base opt) = planningOpts
           \<and> (\<forall>from' to'. plannerSetupFromMoveRequest E from' to' seedMap worldState planningOpts = Inr opt)"
proof (cases "configuredOptions E seedMap worldState planningOpts")
  case (Inl e)
  then show ?thesis
    using setup_rrtstar [of planningOpts E p_from p_to seedMap worldState] assms by simp
next
  case (Inr r)
  obtain orig mp where r: "r = (orig, mp)" by (cases r)
  note c = Inr [unfolded r]
  let ?opt = "with_fields (\<lambda>f. f\<lparr>PlannerConstructor := newRRTStarConnectMotionPlanner\<rparr>) orig"
  have res: "plannerSetupFromMoveRequest E from' to' seedMap worldState planningOpts = Inr ?opt" for from' to'
    using setup_rrtstar [of planningOpts E from' to' seedMap worldState] assms by (simp add: c)
  from configuredOptions_Inr(1) [OF c] obtain sc oc where
    sc: "newSelfCollisionConstraint E seedMap = Inr sc" and oc: "newObstacleConstraint E worldState seedMap = Inr oc"
    and orig: "orig = PlannerOptions
                ((basicOptions E)
                   \<lparr> constraints := (constraints (basicOptions E))
                        (defaultObstacleConstraintName E \<mapsto> oc, defaultSelfCollisionConstraintName E \<mapsto> sc),
                     extra := planningOpts,
                     Timeout := decodedTimeout planningOpts (Timeout (basicOptions E)) \<rparr>) None"
    by blast
  have "PlannerConstructor (base ?opt) = newRRTStarConnectMotionPlanner" by simp
  moreover have "Fallback ?opt = None" by (simp add: orig)
  moreover have "\<exists>sc oc. newSelfCollisionConstraint E seedMap = Inr sc
                \<and> newObstacleConstraint E worldState seedMap = Inr oc
                \<and> constraints (base ?opt) = (constraints (basicOptions E))
                     (defaultObstacleConstraintName E \<mapsto> oc, defaultSelfCollisionConstraintName E \<mapsto> sc)"
    using sc oc by (simp add: orig)
  moreover have "metric (base ?opt) = metric (basicOptions E)" "pathDist (base ?opt) = pathDist (basicOptions E)"
    "extra (base ?opt) = planningOpts"
    by (simp_all add: orig)
  ultimately show ?thesis
    using res by (simp only: sum.case) blast
qed

text \<open>
  With the linear profile and \<^verbatim>\<open>rrtstar\<close> the options have the two collision
  constraints only; a motion profile that is a number is refused.
\<close>

theorem rrtstar_returns_early_witness:
  "(case plannerSetupFromMoveRequest example_setup_env 0 10 Map.empty ()
           [''planning_alg'' \<mapsto> VString ''rrtstar'', ''motion_profile'' \<mapsto> VString ''linear''] of
      Inl e \<Rightarrow> False
    | Inr opt \<Rightarrow>
        PlannerConstructor (base opt) = newRRTStarConnectMotionPlanner
      \<and> Fallback opt = None
      \<and> constraints (base opt) = [''obstacle'' \<mapsto> (''no_obstacle_collision'', []), ''self_collision'' \<mapsto> (''no_self_collision'', [])]
      \<and> pathDist (base opt) = ''zero'')
   \<and> plannerSetupFromMoveRequest example_setup_env 0 10 Map.empty ()
           [''planning_alg'' \<mapsto> VString ''rrtstar'', ''motion_profile'' \<mapsto> VInt 5] =
        Inl (Error ''could not interpret motion_profile field as string'')"
proof -
  let ?m = "[''planning_alg'' \<mapsto> VString ''rrtstar'', ''motion_profile'' \<mapsto> VString ''linear'']"
  let ?m' = "[''planning_alg'' \<mapsto> VString ''rrtstar'', ''motion_profile'' \<mapsto> VInt 5]"
  have alg: "?m ''planning_alg'' = Some (VString ''rrtstar'')" by simp
  have alg': "?m' ''planning_alg'' = Some (VString ''rrtstar'')" by simp
  have c': "configuredOptions example_setup_env Map.empty () ?m' =
              Inl (Error ''could not interpret motion_profile field as string'')"
    by (simp add: configuredOptions_def example_setup_env_def)
  have "\<exists>opt. plannerSetupFromMoveRequest example_setup_env 0 10 Map.empty () ?m = Inr opt"
    by (simp add: plannerSetupFromMoveRequest.simps configuredOptions_def example_setup_env_def
          json_Unmarshal_def)
  then obtain opt where r: "plannerSetupFromMoveRequest example_setup_env 0 10 Map.empty () ?m = Inr opt"
    by blast
  from rrtstar_returns_early [where planningOpts = ?m and E = example_setup_env and p_from = 0
              and p_to = 10 and seedMap = Map.empty and worldState = "()", OF alg]
  have "PlannerConstructor (base opt) = newRRTStarConnectMotionPlanner
      \<and> Fallback opt = None
      \<and> constraints (base opt) = [''obstacle'' \<mapsto> (''no_obstacle_collision'', []), ''self_collision'' \<mapsto> (''no_self_collision'', [])]
      \<and> pathDist (base opt) = ''zero''"
    unfolding r by (auto simp: example_setup_env_def)
  moreover have "plannerSetupFromMoveRequest example_setup_env 0 10 Map.empty () ?m' =
        Inl (Error ''could not interpret motion_profile field as string'')"
    by (rule setup_Inl [OF c'])
  ultimately show ?thesis
    by (simp add: r)
qed

text \<open>
  Claim C1 says that every request without \<^verbatim>\<open>planning_alg\<close> gets the try-first
  options. A request with the linear profile does not: the options come back
  with the default constructor, the full timeout and no fallback.
\<close>

theorem linear_profile_has_no_fallback:
  "[''motion_profile'' \<mapsto> VString ''linear''] ''planning_alg'' = None
   \<and> (case plannerSetupFromMoveRequest example_setup_env 0 10 Map.empty ()
              [''motion_profile'' \<mapsto> VString ''linear''] of
         Inl e \<Rightarrow> False
       | Inr opt \<Rightarrow>
           Fallback opt = None
         \<and> PlannerConstructor (base opt) = newCBiRRTMotionPlanner
         \<and> PlannerConstructor (base opt) \<noteq> newRRTStarConnectMotionPlanner
         \<and> Timeout (base opt) = Finite 300
         \<and> Timeout (base opt) \<noteq> defaultFallbackTimeout)"
  by (simp add: plannerSetupFromMoveRequest.simps configuredOptions_def example_setup_env_def
        json_Unmarshal_def newBasicPlannerOptions_def AddConstraint_def LinearMotionProfile_def
        float_or_def defaultFallbackTimeout_def)

text \<open>
  Claim C1, as amended. For a request without \<^verbatim>\<open>planning_alg\<close> that
  \<open>plannerSetupFromMoveRequest\<close> accepts: when the motion profile is none of
  linear, pseudolinear, orientation and position-only (it is free, absent or
  any other string), the options returned name the RRT* constructor, have a
  timeout of 1.5 seconds, and their fallback is the options configured from the
  request itself, with the request's extras, its full timeout, the default
  constructor, the same constraints and no fallback of its own. For the four
  other profiles the options have no fallback and keep the default constructor.
\<close>

theorem free_profile_tries_rrtstar_first:
  assumes "planningOpts ''planning_alg'' = None"
    and "plannerSetupFromMoveRequest E p_from p_to seedMap worldState planningOpts = Inr opt"
  shows "(motionProfileOf planningOpts \<notin> {LinearMotionProfile, PseudolinearMotionProfile,
              OrientationMotionProfile, PositionOnlyMotionProfile} \<longrightarrow>
            PlannerConstructor (base opt) = newRRTStarConnectMotionPlanner
          \<and> Timeout (base opt) = Finite (3 / 2)
          \<and> extra (base opt) = planningOpts(''timeout'' \<mapsto> VFloat (Finite (3 / 2)),
                                              ''planning_alg'' \<mapsto> VString ''rrtstar'')
          \<and> (\<exists>orig. Fallback opt = Some orig
                \<and> configuredOptions E seedMap worldState planningOpts = Inr (orig, motionProfileOf planningOpts)
                \<and> Fallback orig = None
                \<and> extra (base orig) = planningOpts
                \<and> Timeout (base orig) = decodedTimeout planningOpts (Timeout (basicOptions E))
                \<and> PlannerConstructor (base orig) = PlannerConstructor (basicOptions E)
                \<and> constraints (base orig) = constraints (base opt)
                \<and> metric (base orig) = metric (base opt)
                \<and> pathDist (base orig) = pathDist (base opt)))
       \<and> (motionProfileOf planningOpts \<in> {LinearMotionProfile, PseudolinearMotionProfile,
              OrientationMotionProfile, PositionOnlyMotionProfile} \<longrightarrow>
            Fallback opt = None
          \<and> PlannerConstructor (base opt) = PlannerConstructor (basicOptions E)
          \<and> Timeout (base opt) = decodedTimeout planningOpts (Timeout (basicOptions E)))"
proof -
  obtain orig mp where c: "configuredOptions E seedMap worldState planningOpts = Inr (orig, mp)"
  proof (cases "configuredOptions E seedMap worldState planningOpts")
    case (Inl e)
    from setup_Inl [OF Inl] assms(2) show ?thesis by simp
  next
    case (Inr r)
    with that show ?thesis by (cases r) simp
  qed
  have mp: "mp = motionProfileOf planningOpts"
    by (rule configuredOptions_Inr(2) [OF c])
  from configuredOptions_Inr(1) [OF c] obtain sc oc where
    orig: "orig = PlannerOptions
                ((basicOptions E)
                   \<lparr> constraints := (constraints (basicOptions E))
                        (defaultObstacleConstraintName E \<mapsto> oc, defaultSelfCollisionConstraintName E \<mapsto> sc),
                     extra := planningOpts,
                     Timeout := decodedTimeout planningOpts (Timeout (basicOptions E)) \<rparr>) None"
    by blast
  note unfold = setup_no_alg [of planningOpts E seedMap worldState orig mp p_from p_to, OF assms(1) c]
  let ?try1 = "planningOpts(''timeout'' \<mapsto> VFloat defaultFallbackTimeout, ''planning_alg'' \<mapsto> VString ''rrtstar'')"
  have first: "PlannerConstructor (base opt) = newRRTStarConnectMotionPlanner
          \<and> Timeout (base opt) = Finite (3 / 2)
          \<and> extra (base opt) = planningOpts(''timeout'' \<mapsto> VFloat (Finite (3 / 2)),
                                              ''planning_alg'' \<mapsto> VString ''rrtstar'')
          \<and> (\<exists>orig. Fallback opt = Some orig
                \<and> configuredOptions E seedMap worldState planningOpts = Inr (orig, motionProfileOf planningOpts)
                \<and> Fallback orig = None
                \<and> extra (base orig) = planningOpts
                \<and> Timeout (base orig) = decodedTimeout planningOpts (Timeout (basicOptions E))
                \<and> PlannerConstructor (base orig) = PlannerConstructor (basicOptions E)
                \<and> constraints (base orig) = constraints (base opt)
                \<and> metric (base orig) = metric (base opt)
                \<and> pathDist (base orig) = pathDist (base opt))"
    if free: "mp \<notin> {LinearMotionProfile, PseudolinearMotionProfile,
              OrientationMotionProfile, PositionOnlyMotionProfile}"
  proof -
    from free unfold assms(2) obtain try1Opt where
      t1: "plannerSetupFromMoveRequest E p_from p_to seedMap worldState ?try1 = Inr try1Opt"
      and res: "opt = with_Fallback (Some orig) try1Opt"
      by (cases "plannerSetupFromMoveRequest E p_from p_to seedMap worldState ?try1") auto
    note t = setup_try1 [OF c t1]
    show ?thesis
      unfolding res t using c by (simp add: orig mp defaultFallbackTimeout_def)
  qed
  have other: "Fallback opt = None
          \<and> PlannerConstructor (base opt) = PlannerConstructor (basicOptions E)
          \<and> Timeout (base opt) = decodedTimeout planningOpts (Timeout (basicOptions E))"
    if prof: "mp \<in> {LinearMotionProfile, PseudolinearMotionProfile,
              OrientationMotionProfile, PositionOnlyMotionProfile}"
  proof -
    from prof unfold assms(2) show ?thesis
      by (auto simp: orig AddConstraint_def SetMetric_def with_fields_def split: prod.splits if_splits)
  qed
  show ?thesis using first other by (simp only: mp) blast
qed

text \<open>
  A free-profile request with a timeout of 20 seconds gets RRT* for 1.5
  seconds with the CBiRRT options, 20 seconds, as fallback; a position-only
  request gets the CBiRRT options with no fallback.
\<close>

theorem free_profile_tries_rrtstar_first_witness:
  "(case plannerSetupFromMoveRequest example_setup_env 0 10 Map.empty ()
           [''motion_profile'' \<mapsto> VString ''free'', ''timeout'' \<mapsto> VFloat (Finite 20)] of
      Inl e \<Rightarrow> False
    | Inr opt \<Rightarrow>
        PlannerConstructor (base opt) = newRRTStarConnectMotionPlanner
      \<and> Timeout (base opt) = Finite (3 / 2)
      \<and> (case Fallback opt of
            None \<Rightarrow> False
          | Some orig \<Rightarrow>
              Timeout (base orig) = Finite 20
            \<and> PlannerConstructor (base orig) = newCBiRRTMotionPlanner
            \<and> Fallback orig = None))
   \<and> (case plannerSetupFromMoveRequest example_setup_env 0 10 Map.empty ()
           [''motion_profile'' \<mapsto> VString ''position_only''] of
      Inl e \<Rightarrow> False
    | Inr opt \<Rightarrow> Fallback opt = None \<and> PlannerConstructor (base opt) = newCBiRRTMotionPlanner)"
proof -
  let ?m = "[''motion_profile'' \<mapsto> VString ''free'', ''timeout'' \<mapsto> VFloat (Finite 20)]"
  let ?m' = "[''motion_profile'' \<mapsto> VString ''position_only'']"
  have "\<exists>opt. plannerSetupFromMoveRequest example_setup_env 0 10 Map.empty () ?m = Inr opt"
    by (simp add: plannerSetupFromMoveRequest.simps configuredOptions_def example_setup_env_def
          json_Unmarshal_def LinearMotionProfile_def PseudolinearMotionProfile_def
          OrientationMotionProfile_def PositionOnlyMotionProfile_def deepAtomicCopyMap_def)
  then obtain opt where r: "plannerSetupFromMoveRequest example_setup_env 0 10 Map.empty () ?m = Inr opt"
    by blast
  have "\<exists>opt. plannerSetupFromMoveRequest example_setup_env 0 10 Map.empty () ?m' = Inr opt"
    by (simp add: plannerSetupFromMoveRequest.simps configuredOptions_def example_setup_env_def
          json_Unmarshal_def LinearMotionProfile_def PseudolinearMotionProfile_def
          OrientationMotionProfile_def PositionOnlyMotionProfile_def deepAtomicCopyMap_def)
  then obtain opt' where r': "plannerSetupFromMoveRequest example_setup_env 0 10 Map.empty () ?m' = Inr opt'"
    by blast
  have alg: "?m ''planning_alg'' = None" and alg': "?m' ''planning_alg'' = None"
    by simp_all
  have free: "motionProfileOf ?m \<notin> {LinearMotionProfile, PseudolinearMotionProfile,
              OrientationMotionProfile, PositionOnlyMotionProfile}"
    by (simp add: motionProfileOf_def LinearMotionProfile_def PseudolinearMotionProfile_def
          OrientationMotionProfile_def PositionOnlyMotionProfile_def)
  have pos: "motionProfileOf ?m' \<in> {LinearMotionProfile, PseudolinearMotionProfile,
              OrientationMotionProfile, PositionOnlyMotionProfile}"
    by (simp add: motionProfileOf_def PositionOnlyMotionProfile_def)
  have t: "decodedTimeout ?m d = Finite 20" for d
    by (simp add: decodedTimeout_def)
  from free_profile_tries_rrtstar_first [OF alg r, THEN conjunct1, rule_format, OF free]
  have "PlannerConstructor (base opt) = newRRTStarConnectMotionPlanner
      \<and> Timeout (base opt) = Finite (3 / 2)
      \<and> (\<exists>orig. Fallback opt = Some orig \<and> Timeout (base orig) = Finite 20
            \<and> PlannerConstructor (base orig) = newCBiRRTMotionPlanner \<and> Fallback orig = None)"
    by (auto simp: example_setup_env_def t)
  moreover from free_profile_tries_rrtstar_first [OF alg' r', THEN conjunct2, rule_format, OF pos]
  have "Fallback opt' = None \<and> PlannerConstructor (base opt') = newCBiRRTMotionPlanner"
    by (simp add: example_setup_env_def)
  ultimately show ?thesis
    by (auto simp: r r')
qed

end
